theory Spec2Isabelle
  imports Main "HOL-Library.Sublist" "HOL-Library.AList"
begin

section \<open>Strings\<close>

text \<open>
  A JavaScript string is modelled as a \<^typ>\<open>string\<close> whose characters stand for the code
  units U+0000 to U+00FF; characters beyond that range are not represented.
  \<^verbatim>\<open>s.startsWith(p)\<close> is \<^term>\<open>prefix p s\<close>, \<^verbatim>\<open>s.endsWith(p)\<close> is \<^term>\<open>suffix p s\<close> and
  \<^verbatim>\<open>s.includes(p)\<close> is \<^term>\<open>sublist p s\<close>.  A value that may be \<^verbatim>\<open>undefined\<close> or
  \<^verbatim>\<open>null\<close> is an \<^typ>\<open>'a option\<close>.
\<close>

definition backslash :: char where
  "backslash = CHR 0x5C"

section \<open>Identifier codec: \<^verbatim>\<open>cssEscape\<close> (extract-all.js, extract-tables.js), \<^verbatim>\<open>escapeCss\<close> (scan)\<close>

text \<open>
  The character class of the regular expression
  \<^verbatim>\<open>/([ #.;?+*~\':"!^$\[\]()=>|\/@])/g\<close>, in the order it is written.
\<close>

definition cssSpecial :: "char list" where
  "cssSpecial =
     [CHR '' '', CHR ''#'', CHR ''.'', CHR '';'', CHR ''?'', CHR ''+'', CHR ''*'', CHR ''~'',
      CHR 0x27, CHR '':'', CHR 0x22, CHR ''!'', CHR ''^'', CHR ''$'', CHR ''['', CHR '']'',
      CHR ''('', CHR '')'', CHR ''='', CHR ''>'', CHR ''|'', CHR ''/'', CHR ''@'']"

text \<open>
  \<^verbatim>\<open>replace(re, '\\$1')\<close> with the global flag scans the string from left to right and
  replaces every match (a single character of the class) by a backslash followed by the
  match; every other character is copied.
\<close>

fun cssEscape_str :: "string \<Rightarrow> string" where
  "cssEscape_str [] = []"
| "cssEscape_str (c # cs) =
     (if c \<in> set cssSpecial then backslash # c # cssEscape_str cs else c # cssEscape_str cs)"

text \<open>\<^verbatim>\<open>id?.replace(...)\<close>: an absent id stays absent.\<close>

definition cssEscape :: "string option \<Rightarrow> string option" where
  "cssEscape ident = map_option cssEscape_str ident"

text \<open>
  Modelled from the spec: the characters that section 4.1 of the specification lists for
  \<^verbatim>\<open>escapeSelector\<close> (space, \<^verbatim>\<open>#\<close>, \<^verbatim>\<open>.\<close>, \<^verbatim>\<open>;\<close>, \<^verbatim>\<open>?\<close>, \<^verbatim>\<open>+\<close>, \<^verbatim>\<open>*\<close>, \<^verbatim>\<open>~\<close>, quotes, \<^verbatim>\<open>!\<close>, \<^verbatim>\<open>^\<close>,
  \<^verbatim>\<open>$\<close>, brackets, parens, \<^verbatim>\<open>=\<close>, \<^verbatim>\<open>>\<close>, \<^verbatim>\<open>|\<close>, \<^verbatim>\<open>/\<close>, \<^verbatim>\<open>@\<close>); "quotes" are the single and the
  double quote.
\<close>

definition specListed :: "char list" where
  "specListed =
     [CHR '' '', CHR ''#'', CHR ''.'', CHR '';'', CHR ''?'', CHR ''+'', CHR ''*'', CHR ''~'',
      CHR 0x27, CHR 0x22, CHR ''!'', CHR ''^'', CHR ''$'', CHR ''['', CHR '']'',
      CHR ''('', CHR '')'', CHR ''='', CHR ''>'', CHR ''|'', CHR ''/'', CHR ''@'']"

section \<open>Action classification: \<^verbatim>\<open>classifyActionId\<close> (extract-all.js, extract-tables.js)\<close>

definition classifyActionId :: "string option \<Rightarrow> string" where
  "classifyActionId ident =
     (case ident of
        None \<Rightarrow> ''unknown''
      | Some i \<Rightarrow>
          if i = [] then ''unknown''
          else if sublist ''::StandardAction::'' i then ''standard''
          else if suffix ''-settings'' i \<or> sublist ''-export'' i then ''standard''
          else if sublist ''showHideDetails'' i then ''standard''
          else if sublist ''toolbar-overflowButton'' i then ''standard''
          else if sublist ''::CustomAction::'' i then ''custom''
          else ''custom_candidate'')"

section \<open>JavaScript values\<close>

text \<open>
  Truthiness of an optional string: \<^verbatim>\<open>undefined\<close>, \<^verbatim>\<open>null\<close> and the empty string are falsy.
  \<^verbatim>\<open>a || b\<close> is \<open>js_or a b\<close>.
\<close>

definition truthy :: "string option \<Rightarrow> bool" where
  "truthy v = (case v of None \<Rightarrow> False | Some s \<Rightarrow> s \<noteq> [])"

definition js_or :: "string option \<Rightarrow> string option \<Rightarrow> string option" where
  "js_or a b = (if truthy a then a else b)"

text \<open>
  \<^verbatim>\<open>s.split(sep)\<close> for a non-empty separator: the pieces between the non-overlapping
  occurrences of the separator, found from left to right.  Every call in the sources
  passes a non-empty separator; for the empty separator (where JavaScript splits into
  single characters) this function returns the string unsplit.
\<close>

fun split_acc :: "string \<Rightarrow> string \<Rightarrow> string \<Rightarrow> string list" where
  "split_acc sep cur [] = [rev cur]"
| "split_acc sep cur (c # cs) =
     (if sep \<noteq> [] \<and> prefix sep (c # cs)
      then rev cur # split_acc sep [] (drop (length sep) (c # cs))
      else split_acc sep (c # cur) cs)"

definition split :: "string \<Rightarrow> string \<Rightarrow> string list" where
  "split sep s = split_acc sep [] s"

text \<open>\<^verbatim>\<open>arr[i]\<close> is \<^verbatim>\<open>undefined\<close> out of range.\<close>

definition nth_opt :: "'a list \<Rightarrow> nat \<Rightarrow> 'a option" where
  "nth_opt xs i = (if i < length xs then Some (xs ! i) else None)"

text \<open>\<^verbatim>\<open>arr.pop()\<close> on a fresh array: its last element, \<^verbatim>\<open>undefined\<close> when empty.\<close>

definition pop :: "'a list \<Rightarrow> 'a option" where
  "pop xs = (if xs = [] then None else Some (last xs))"

text \<open>\<^verbatim>\<open>`#${cssEscape(x)}`\<close> for a string \<open>x\<close>.\<close>

definition hashSel :: "string \<Rightarrow> string" where
  "hashSel x = CHR ''#'' # cssEscape_str x"

text \<open>\<^verbatim>\<open>x ? `#${cssEscape(x)}` : undefined\<close>.\<close>

definition hashSel_opt :: "string option \<Rightarrow> string option" where
  "hashSel_opt x = (case x of None \<Rightarrow> None | Some s \<Rightarrow> if s = [] then None else Some (hashSel s))"

section \<open>Data model: the scan output read by the reconciler\<close>

record innerIds =
  inputId :: "string option"
  selectId :: "string option"
  dateId :: "string option"

record filterItem =
  it_id :: "string option"
  it_localId :: "string option"
  it_type :: "string option"
  it_labelText :: "string option"
  it_propertyKey :: "string option"
  it_innerRoleHint :: "string option"
  it_innerIds :: "innerIds option"

record filterBarInfo =
  basicSearchPresent :: bool
  filterItemCount :: "nat option"
  items :: "filterItem list option"

record tableInfo =
  rowCount :: "nat option"
  columnCount :: "nat option"

record ctlSelectors =
  sel_id :: "string option"
  sel_cssId :: string
  sel_role :: "string option"
  sel_dataSapUi :: "string option"

record control =
  c_id :: "string option"
  c_type :: "string option"
  c_role :: "string option"
  c_roleHint :: "string option"
  c_text :: "string option"
  c_labelText :: "string option"
  c_value :: "string option"
  c_placeholder :: "string option"
  c_tooltip :: "string option"
  c_visible :: bool
  c_enabled :: bool
  c_ariaLabel :: "string option"
  c_ariaDescribedBy :: "string option"
  c_bindingPaths :: "(string \<times> string) list"
  c_localId :: "string option"
  c_selectors :: ctlSelectors
  c_tableInfo :: "tableInfo option"
  c_filterBarInfo :: "filterBarInfo option"

section \<open>Data model: the persisted metadata (all.json)\<close>

record filterSelectors =
  filterFieldCss :: "string option"
  inputCss :: "string option"
  selectCss :: "string option"
  dateCss :: "string option"

record filterDescriptor =
  propertyKey :: string
  label :: "string option"
  filterFieldId :: "string option"
  f_localId :: "string option"
  selectors :: filterSelectors

record column =
  col_propertyKey :: string
  col_label :: string
  headerColumnId :: "string option"
  headerColumnCss :: "string option"

record action =
  a_id :: string
  a_text :: "string option"
  actionType :: string
  a_selector :: string

record tableSelectors =
  tableCss :: string
  innerTableCss :: "string option"
  listUlCss :: "string option"
  selectAllCss :: "string option"

record tableDescriptor =
  tableId :: string
  innerTableId :: "string option"
  listUlId :: "string option"
  t_selectors :: tableSelectors
  actions :: "action list"
  customActions :: "action list"
  columns :: "column list"
  columnsSource :: "string option"

text \<open>An entry of \<^verbatim>\<open>scan.extras.tablesP13n\<close>: the labels read from the column settings dialog.\<close>

record p13nEntry =
  p_tableId :: string
  p_columns :: "string list option"

section \<open>Metadata reconciler: \<^verbatim>\<open>extractFilters\<close> (extract-all.js)\<close>

text \<open>
  \<^verbatim>\<open>cur?.filterBarInfo?.filterItemCount ?? (cur?.filterBarInfo?.items?.length ?? 0)\<close>
\<close>

definition itemCount :: "control \<Rightarrow> nat" where
  "itemCount c =
     (case c_filterBarInfo c of
        None \<Rightarrow> 0
      | Some info \<Rightarrow>
          (case filterItemCount info of
             Some n \<Rightarrow> n
           | None \<Rightarrow> (case items info of Some its \<Rightarrow> length its | None \<Rightarrow> 0)))"

definition filterBars :: "control list \<Rightarrow> control list" where
  "filterBars controls =
     filter (\<lambda>c. c_roleHint c = Some ''filterbar'' \<and> c_filterBarInfo c \<noteq> None) controls"

text \<open>
  \<^verbatim>\<open>filterBars.reduce((best, cur) => curCount > bestCount ? cur : best, filterBars[0])\<close>,
  guarded by \<^verbatim>\<open>filterBars.length > 0\<close>; \<^verbatim>\<open>fb\<close> stays \<^verbatim>\<open>null\<close> otherwise.
\<close>

definition better :: "control \<Rightarrow> control \<Rightarrow> control" where
  "better best cur = (if itemCount cur > itemCount best then cur else best)"

definition primaryFilterBar :: "control list \<Rightarrow> control option" where
  "primaryFilterBar controls =
     (case filterBars controls of
        [] \<Rightarrow> None
      | fb0 # rest \<Rightarrow> Some (foldl better fb0 (fb0 # rest)))"

text \<open>
  \<^verbatim>\<open>f.bindingPaths?.conditions ? String(f.bindingPaths.conditions).split('/').pop() : undefined\<close>
\<close>

definition conditionsKey :: "control \<Rightarrow> string option" where
  "conditionsKey f =
     (let p = map_of (c_bindingPaths f) ''conditions''
      in if truthy p then pop (split ''/'' (the p)) else None)"

definition fieldItem :: "control \<Rightarrow> filterItem" where
  "fieldItem f =
     \<lparr> it_id = c_id f, it_localId = c_localId f, it_type = None,
       it_labelText = js_or (c_labelText f) (c_text f),
       it_propertyKey = conditionsKey f, it_innerRoleHint = None,
       it_innerIds = Some \<lparr> inputId = None, selectId = None, dateId = None \<rparr> \<rparr>"

text \<open>
  The items of the primary filter bar, followed by the \<^verbatim>\<open>sap.ui.mdc.FilterField\<close> controls
  whose id is not the id of one of those items (\<^verbatim>\<open>existingIds\<close> is computed once, before
  the loop).
\<close>

definition collectItems :: "control list \<Rightarrow> filterItem list" where
  "collectItems controls =
     (let its = (case primaryFilterBar controls of
                   None \<Rightarrow> []
                 | Some fb \<Rightarrow>
                     (case c_filterBarInfo fb of
                        None \<Rightarrow> []
                      | Some info \<Rightarrow> (case items info of None \<Rightarrow> [] | Some l \<Rightarrow> l)));
          allFields = filter (\<lambda>c. c_type c = Some ''sap.ui.mdc.FilterField'') controls;
          existingIds = map it_id its
      in foldl (\<lambda>acc f. if c_id f \<in> set existingIds then acc else acc @ [fieldItem f])
           its allFields)"

definition itemKey :: "filterItem \<Rightarrow> string option" where
  "itemKey it = js_or (js_or (it_propertyKey it) (it_localId it)) (it_id it)"

definition mkFilter :: "string \<Rightarrow> filterItem \<Rightarrow> filterDescriptor" where
  "mkFilter key it =
     (let inner = (case it_innerIds it of
                     None \<Rightarrow> \<lparr> inputId = None, selectId = None, dateId = None \<rparr>
                   | Some i \<Rightarrow> i)
      in \<lparr> propertyKey = key,
           label = js_or (it_labelText it) None,
           filterFieldId = it_id it,
           f_localId = it_localId it,
           selectors = \<lparr> filterFieldCss = hashSel_opt (it_id it),
                         inputCss = hashSel_opt (inputId inner),
                         selectCss = hashSel_opt (selectId inner),
                         dateCss = hashSel_opt (dateId inner) \<rparr> \<rparr>)"

text \<open>
  One round of the deduplicating \<^verbatim>\<open>forEach\<close>; the state is the set \<^verbatim>\<open>seen\<close> (as a list)
  and the array \<^verbatim>\<open>result\<close>.
\<close>

definition dedupStep ::
  "string list \<times> filterDescriptor list \<Rightarrow> filterItem \<Rightarrow> string list \<times> filterDescriptor list"
where
  "dedupStep st it =
     (let key = itemKey it
      in if \<not> truthy key \<or> the key \<in> set (fst st) then st
         else (fst st @ [the key], snd st @ [mkFilter (the key) it]))"

definition extractFilters :: "control list \<Rightarrow> filterDescriptor list" where
  "extractFilters controls = snd (foldl dedupStep ([], []) (collectItems controls))"

section \<open>Metadata reconciler: \<^verbatim>\<open>extractTables\<close> (extract-all.js)\<close>

definition getText :: "control \<Rightarrow> string option" where
  "getText c = js_or (js_or (c_text c) (c_labelText c)) None"

text \<open>\<^verbatim>\<open>controls.find((c) => c.id === x)\<close> for a string \<open>x\<close>.\<close>

definition findById :: "control list \<Rightarrow> string \<Rightarrow> control option" where
  "findById controls x = find (\<lambda>c. c_id c = Some x) controls"

definition idHas :: "(string \<Rightarrow> bool) \<Rightarrow> control \<Rightarrow> bool" where
  "idHas P c = (case c_id c of None \<Rightarrow> False | Some i \<Rightarrow> P i)"

definition tableActions :: "control list \<Rightarrow> string \<Rightarrow> action list" where
  "tableActions controls basePrefix =
     (let toolbarPrefix = basePrefix @ ''-toolbar'';
          actionCandidates =
            filter (idHas (\<lambda>i. prefix toolbarPrefix i \<or> prefix (basePrefix @ ''::'') i
                               \<or> prefix (basePrefix @ ''-export'') i \<or> suffix ''-settings'' i))
              controls
      in map (\<lambda>c. \<lparr> a_id = the (c_id c), a_text = getText c,
                     actionType = classifyActionId (c_id c),
                     a_selector = hashSel (the (c_id c)) \<rparr>)
           (filter (\<lambda>c. case c_type c of None \<Rightarrow> False | Some t \<Rightarrow> t \<noteq> [] \<and> sublist ''Button'' t)
              actionCandidates))"

text \<open>
  One round of the column \<^verbatim>\<open>forEach\<close>; the state is \<^verbatim>\<open>seenKeys\<close> and \<^verbatim>\<open>columns\<close>.
\<close>

definition columnStep ::
  "string \<Rightarrow> control list \<Rightarrow> string list \<times> column list \<Rightarrow> control \<Rightarrow> string list \<times> column list"
where
  "columnStep basePrefix colIdControls st c =
     (let after = nth_opt (split (basePrefix @ ''::C::'') (the (c_id c))) 1
      in if \<not> truthy after then st
         else
           (let key = hd (split ''-'' (the after))
            in if key = [] \<or> key \<in> set (fst st) then st
               else
                 (let headerControl =
                        (case findById colIdControls (basePrefix @ ''::C::'' @ key) of
                           Some hc \<Rightarrow> hc
                         | None \<Rightarrow> c);
                      lbl = (case getText headerControl of Some t \<Rightarrow> t | None \<Rightarrow> key);
                      hid = basePrefix @ ''::C::'' @ key @ ''-innerColumn''
                  in (fst st @ [key],
                      snd st @ [\<lparr> col_propertyKey = key, col_label = lbl,
                                  headerColumnId = Some hid,
                                  headerColumnCss = Some (hashSel hid) \<rparr>]))))"

definition tableColumns :: "control list \<Rightarrow> string \<Rightarrow> column list" where
  "tableColumns controls basePrefix =
     (let colIdControls = filter (idHas (\<lambda>i. sublist (basePrefix @ ''::C::'') i)) controls
      in snd (foldl (columnStep basePrefix colIdControls) ([], []) colIdControls))"

definition mkTable :: "control list \<Rightarrow> control \<Rightarrow> tableDescriptor" where
  "mkTable controls root =
     (let tid = the (c_id root);
          innerTable = findById controls (tid @ ''-innerTable'');
          listUl = findById controls (tid @ ''-innerTable-listUl'');
          acts = tableActions controls tid;
          selectAllId = tid @ ''-innerTable-sa'';
          selectAll = findById controls selectAllId
      in \<lparr> tableId = tid,
           innerTableId = (case innerTable of None \<Rightarrow> None | Some c \<Rightarrow> c_id c),
           listUlId = (case listUl of None \<Rightarrow> None | Some c \<Rightarrow> c_id c),
           t_selectors =
             \<lparr> tableCss = hashSel tid,
               innerTableCss = hashSel_opt (case innerTable of None \<Rightarrow> None | Some c \<Rightarrow> c_id c),
               listUlCss = hashSel_opt (case listUl of None \<Rightarrow> None | Some c \<Rightarrow> c_id c),
               selectAllCss = (case selectAll of None \<Rightarrow> None | Some c \<Rightarrow> Some (hashSel selectAllId)) \<rparr>,
           actions = acts,
           customActions =
             filter (\<lambda>a. actionType a = ''custom'' \<or> actionType a = ''custom_candidate'') acts,
           columns = tableColumns controls tid,
           columnsSource = None \<rparr>)"

definition extractTables :: "control list \<Rightarrow> tableDescriptor list" where
  "extractTables controls =
     map (mkTable controls)
       (filter (idHas (\<lambda>i. sublist ''::table::'' i \<and> suffix ''::LineItem'' i)) controls)"

section \<open>Metadata reconciler: the merge of dialog-sourced columns (\<^verbatim>\<open>main\<close>, extract-all.js)\<close>

definition labelOnly :: "string \<Rightarrow> column" where
  "labelOnly l = \<lparr> col_propertyKey = l, col_label = l, headerColumnId = None, headerColumnCss = None \<rparr>"

text \<open>
  The inner \<^verbatim>\<open>forEach\<close> over the labels of one dialog: \<^verbatim>\<open>existingLabels\<close> holds the labels
  of the target's columns before the loop and is not updated by it; \<^verbatim>\<open>existingKeys\<close> is
  computed by the source and never read.
\<close>

definition mergeColumns :: "column list \<Rightarrow> string list \<Rightarrow> column list" where
  "mergeColumns cols labels =
     (let existingLabels = map col_label cols
      in foldl (\<lambda>merged l. if l \<in> set existingLabels then merged else merged @ [labelOnly l])
           cols labels)"

text \<open>
  \<^verbatim>\<open>tables.find((x) => x.tableId === t.tableId || x.selectors?.tableCss?.includes(cssEscape(t.tableId)))\<close>:
  the position of the first such table.
\<close>

definition isTarget :: "p13nEntry \<Rightarrow> tableDescriptor \<Rightarrow> bool" where
  "isTarget t x \<longleftrightarrow>
     tableId x = p_tableId t \<or> sublist (cssEscape_str (p_tableId t)) (tableCss (t_selectors x))"

fun findIndex :: "('a \<Rightarrow> bool) \<Rightarrow> 'a list \<Rightarrow> nat option" where
  "findIndex P [] = None"
| "findIndex P (x # xs) = (if P x then Some 0 else map_option Suc (findIndex P xs))"

text \<open>One round of \<^verbatim>\<open>p13n.forEach\<close>: the target table object is updated in place.\<close>

definition mergeEntry :: "tableDescriptor list \<Rightarrow> p13nEntry \<Rightarrow> tableDescriptor list" where
  "mergeEntry tables t =
     (case findIndex (isTarget t) tables of
        None \<Rightarrow> tables
      | Some i \<Rightarrow>
          tables[i := (tables ! i)
            \<lparr> columns := mergeColumns (columns (tables ! i))
                           (case p_columns t of None \<Rightarrow> [] | Some ls \<Rightarrow> ls),
              columnsSource := Some ''scan+dialog'' \<rparr>])"

definition mergeP13n :: "tableDescriptor list \<Rightarrow> p13nEntry list \<Rightarrow> tableDescriptor list" where
  "mergeP13n tables p13n = foldl mergeEntry tables p13n"

text \<open>The part of \<^verbatim>\<open>main\<close> after the scan is loaded: what is written to all.json.\<close>

definition reconcile ::
  "control list \<Rightarrow> p13nEntry list \<Rightarrow> filterDescriptor list \<times> tableDescriptor list" where
  "reconcile controls p13n = (extractFilters controls, mergeP13n (extractTables controls) p13n)"

section \<open>Filter resolution and \<^verbatim>\<open>setFilter\<close> (generated server)\<close>

text \<open>
  \<^verbatim>\<open>toLowerCase\<close> on the code units of the model: the ASCII capitals and the capitals
  U+00C0 to U+00DE (without the multiplication sign U+00D7) move up by 32.
\<close>

definition toLowerChar :: "char \<Rightarrow> char" where
  "toLowerChar c =
     (let n = (of_char c :: nat)
      in if (65 \<le> n \<and> n \<le> 90) \<or> (192 \<le> n \<and> n \<le> 222 \<and> n \<noteq> 215)
         then char_of (n + 32) else c)"

definition toLowerCase :: "string \<Rightarrow> string" where
  "toLowerCase s = map toLowerChar s"

text \<open>
  \<^verbatim>\<open>const normalize = (str) => (str || '').toLowerCase().replace(/[-_s]/g, '')\<close>, as the
  generated server has it: the character class holds the hyphen, the underscore and the
  letter \<^verbatim>\<open>s\<close>.
\<close>

definition normalize_js :: "string option \<Rightarrow> string" where
  "normalize_js str =
     filter (\<lambda>c. c \<notin> set [CHR ''-'', CHR ''_'', CHR ''s''])
       (toLowerCase (case js_or str (Some []) of None \<Rightarrow> [] | Some s \<Rightarrow> s))"

text \<open>The predicate handed to \<^verbatim>\<open>all.filters.find\<close>, with its four disjuncts in order.\<close>

definition matchesFilter :: "string \<Rightarrow> filterDescriptor \<Rightarrow> bool" where
  "matchesFilter q f \<longleftrightarrow>
     (let searchTerm = normalize_js (Some q)
      in normalize_js (Some (propertyKey f)) = searchTerm
         \<or> normalize_js (label f) = searchTerm
         \<or> sublist searchTerm (normalize_js (Some (propertyKey f)))
         \<or> sublist searchTerm (normalize_js (label f)))"

definition lookupFilter :: "filterDescriptor list \<Rightarrow> string \<Rightarrow> filterDescriptor option" where
  "lookupFilter filters q = find (matchesFilter q) filters"

text \<open>
  The operations on the page, in the order they are issued.  A selector that may be
  \<^verbatim>\<open>undefined\<close> is optional.  Failures of the browser itself are outside the model.
\<close>

datatype pageOp =
    Fill string string
  | Click "string option"
  | KeyboardType string
  | DispatchEvents "string option" "string list"

text \<open>A template literal prints an absent value as \<^verbatim>\<open>undefined\<close>.\<close>

definition show_opt :: "string option \<Rightarrow> string" where
  "show_opt v = (case v of None \<Rightarrow> ''undefined'' | Some s \<Rightarrow> s)"

definition newline :: char where
  "newline = CHR 0x0A"

definition dquote :: char where
  "dquote = CHR 0x22"

text \<open>\<^verbatim>\<open>arr.join(sep)\<close> on strings.\<close>

fun join :: "string \<Rightarrow> string list \<Rightarrow> string" where
  "join sep [] = []"
| "join sep [x] = x"
| "join sep (x # y # ys) = x @ sep @ join sep (y # ys)"

definition filterLine :: "filterDescriptor \<Rightarrow> string" where
  "filterLine f = ''- '' @ propertyKey f @ '' ('' @ show_opt (label f) @ '')''"

definition notFoundText :: "filterDescriptor list \<Rightarrow> string \<Rightarrow> string" where
  "notFoundText filters q =
     ''Filter not found: '' @ q @ [newline, newline] @ ''Available filters:'' @ [newline]
     @ join [newline] (map filterLine filters)
     @ [newline, newline] @ ''Please use one of the property keys above.''"

definition popupItem :: "string \<Rightarrow> string" where
  "popupItem v = ''.sapMPopupCont li:has-text('' @ [dquote] @ v @ [dquote] @ '')''"

definition filterOps :: "filterDescriptor \<Rightarrow> string \<Rightarrow> pageOp list" where
  "filterOps f v =
     (if truthy (inputCss (selectors f))
      then [Fill (the (inputCss (selectors f))) [], Fill (the (inputCss (selectors f))) v,
            DispatchEvents (inputCss (selectors f)) [''input'', ''change'', ''blur'']]
      else if truthy (selectCss (selectors f))
      then [Click (selectCss (selectors f)), Click (Some (popupItem v))]
      else [Click (filterFieldCss (selectors f)), KeyboardType v,
            DispatchEvents (filterFieldCss (selectors f)) [''change'']])"

text \<open>
  \<^verbatim>\<open>setFilter(propertyKey, value)\<close> of the generated server (the second method of that name
  in the class, which is the one in effect), on the filters read from all.json: the
  operations issued on the page and the text of the response.
\<close>

definition setFilter :: "filterDescriptor list \<Rightarrow> string \<Rightarrow> string \<Rightarrow> pageOp list \<times> string" where
  "setFilter filters q v =
     (case lookupFilter filters q of
        None \<Rightarrow> ([], notFoundText filters q)
      | Some f \<Rightarrow>
          (filterOps f v,
           ''Filter '' @ show_opt (label f) @ '' ('' @ propertyKey f @ '') set to '' @ v))"

text \<open>
  \<^verbatim>\<open>setFilter(page, propertyKey, value)\<close> of the command-line client: an exact match on
  the property key, and an exception (the left summand, with its message) on a miss.
\<close>

definition rc_setFilter :: "filterDescriptor list \<Rightarrow> string \<Rightarrow> string \<Rightarrow> string + pageOp list" where
  "rc_setFilter filters q v =
     (case find (\<lambda>x. propertyKey x = q) filters of
        None \<Rightarrow> Inl (''Filter not found: '' @ q)
      | Some f \<Rightarrow>
          Inr (if truthy (inputCss (selectors f)) then [Fill (the (inputCss (selectors f))) v]
               else if truthy (selectCss (selectors f))
               then [Click (selectCss (selectors f)), Click (Some (popupItem v))]
               else [Click (filterFieldCss (selectors f)), KeyboardType v]))"

text \<open>
  The match by normalized containment alone: the normalized query occurs in the normalized
  property key or in the normalized label.
\<close>

definition containsQuery :: "string \<Rightarrow> filterDescriptor \<Rightarrow> bool" where
  "containsQuery q f \<longleftrightarrow>
     sublist (normalize_js (Some q)) (normalize_js (Some (propertyKey f)))
     \<or> sublist (normalize_js (Some q)) (normalize_js (label f))"

section \<open>Concrete filter sets used below\<close>

definition mkDescriptor :: "string \<Rightarrow> string \<Rightarrow> filterDescriptor" where
  "mkDescriptor k l =
     \<lparr> propertyKey = k, label = Some l, filterFieldId = Some (''ff::'' @ k), f_localId = None,
       selectors = \<lparr> filterFieldCss = Some (hashSel (''ff::'' @ k)),
                     inputCss = Some (hashSel (''ff::'' @ k @ ''-inner'')),
                     selectCss = None, dateCss = None \<rparr> \<rparr>"

definition exFilters :: "filterDescriptor list" where
  "exFilters = [mkDescriptor ''BookingDate'' ''Booked'', mkDescriptor ''Booking'' ''Booking'']"

section \<open>The page: a document tree and its queries\<close>

text \<open>
  The executor reads the page through \<^verbatim>\<open>textContent\<close>, \<^verbatim>\<open>getAttribute\<close>, \<^verbatim>\<open>className\<close> and
  \<^verbatim>\<open>querySelector(All)\<close>.  A document is the tree of its root element; an element has a
  tag (its local name, in lower case), attributes and children; comments are left out.
\<close>

datatype node = TextNode string | Element string "(string \<times> string) list" "node list"

text \<open>\<^verbatim>\<open>textContent\<close>: the text of all descendant text nodes, in tree order.\<close>

fun textContent :: "node \<Rightarrow> string" where
  "textContent (TextNode t) = t"
| "textContent (Element tg as ks) = concat (map textContent ks)"

definition getAttribute :: "node \<Rightarrow> string \<Rightarrow> string option" where
  "getAttribute n a = (case n of TextNode t \<Rightarrow> None | Element tg as ks \<Rightarrow> map_of as a)"

definition tagName :: "node \<Rightarrow> string" where
  "tagName n = (case n of TextNode t \<Rightarrow> [] | Element tg as ks \<Rightarrow> tg)"

text \<open>\<^verbatim>\<open>el.id\<close> and \<^verbatim>\<open>el.className\<close> are empty strings when the attribute is missing.\<close>

definition elementId :: "node \<Rightarrow> string" where
  "elementId n = (case getAttribute n ''id'' of None \<Rightarrow> [] | Some i \<Rightarrow> i)"

definition className :: "node \<Rightarrow> string" where
  "className n = (case getAttribute n ''class'' of None \<Rightarrow> [] | Some c \<Rightarrow> c)"

definition isAsciiSpace :: "char \<Rightarrow> bool" where
  "isAsciiSpace c \<longleftrightarrow> c \<in> set [CHR 0x09, CHR 0x0A, CHR 0x0C, CHR 0x0D, CHR 0x20]"

text \<open>The class names of an element: the tokens of its class attribute.\<close>

fun tokens_acc :: "string \<Rightarrow> string \<Rightarrow> string list" where
  "tokens_acc cur [] = (if cur = [] then [] else [rev cur])"
| "tokens_acc cur (c # cs) =
     (if isAsciiSpace c then (if cur = [] then [] else [rev cur]) @ tokens_acc [] cs
      else tokens_acc (c # cur) cs)"

definition classList :: "node \<Rightarrow> string list" where
  "classList n = tokens_acc [] (className n)"

text \<open>
  An element in its place is the pair of its ancestors (nearest first) and the element.
  \<open>descendants\<close> lists the descendant elements of a node in tree order.
\<close>

fun descendants :: "node list \<Rightarrow> node \<Rightarrow> (node list \<times> node) list"
  and descendants_list :: "node list \<Rightarrow> node list \<Rightarrow> (node list \<times> node) list" where
  "descendants ancs (TextNode t) = []"
| "descendants ancs (Element tg as ks) = descendants_list (Element tg as ks # ancs) ks"
| "descendants_list ancs [] = []"
| "descendants_list ancs (k # ks) =
     (case k of TextNode t \<Rightarrow> [] | Element tg as ks' \<Rightarrow> [(ancs, k)])
     @ descendants ancs k @ descendants_list ancs ks"

text \<open>Lower case of the ASCII capitals only, as HTML compares attribute values.\<close>

definition asciiLower :: "string \<Rightarrow> string" where
  "asciiLower s =
     map (\<lambda>c. let n = (of_char c :: nat) in if 65 \<le> n \<and> n \<le> 90 then char_of (n + 32) else c) s"

text \<open>
  The selectors of the sources, parsed by hand: a selector is a comma-separated list of
  complex selectors, a complex selector is a chain of compound selectors joined by the
  descendant combinator, a compound selector is a list of simple selectors.
  \<^verbatim>\<open>#x\<close> is \<open>AttrEq ''id'' x\<close>, \<^verbatim>\<open>[a$="v"]\<close> is \<open>AttrEnds a v\<close>, \<^verbatim>\<open>[a*="v"]\<close> is \<open>AttrHas a v\<close>.
  \<open>AttrEqCi a v\<close> is \<^verbatim>\<open>[a="v"]\<close> for an attribute whose values an HTML document compares
  without regard to ASCII case; of the attributes in the selectors of the sources this is
  \<^verbatim>\<open>type\<close>.
\<close>

datatype simple =
    Tag string
  | Class string
  | HasAttr string
  | AttrEq string string
  | AttrEqCi string string
  | AttrEnds string string
  | AttrHas string string

fun matchesSimple :: "node \<Rightarrow> simple \<Rightarrow> bool" where
  "matchesSimple n (Tag t) = (tagName n = t)"
| "matchesSimple n (Class c) = (c \<in> set (classList n))"
| "matchesSimple n (HasAttr a) = (getAttribute n a \<noteq> None)"
| "matchesSimple n (AttrEq a v) = (getAttribute n a = Some v)"
| "matchesSimple n (AttrEqCi a v) =
     (case getAttribute n a of None \<Rightarrow> False | Some x \<Rightarrow> asciiLower x = asciiLower v)"
| "matchesSimple n (AttrEnds a v) =
     (case getAttribute n a of None \<Rightarrow> False | Some x \<Rightarrow> v \<noteq> [] \<and> suffix v x)"
| "matchesSimple n (AttrHas a v) =
     (case getAttribute n a of None \<Rightarrow> False | Some x \<Rightarrow> v \<noteq> [] \<and> sublist v x)"

definition matchesCompound :: "node \<Rightarrow> simple list \<Rightarrow> bool" where
  "matchesCompound n cpd = list_all (matchesSimple n) cpd"

fun matchesAncestors :: "simple list list \<Rightarrow> node list \<Rightarrow> bool" where
  "matchesAncestors [] ancs = True"
| "matchesAncestors (c # cs) [] = False"
| "matchesAncestors (c # cs) (a # as) =
     ((matchesCompound a c \<and> matchesAncestors cs as) \<or> matchesAncestors (c # cs) as)"

definition matchesComplex :: "node list \<times> node \<Rightarrow> simple list list \<Rightarrow> bool" where
  "matchesComplex h cx =
     (case rev cx of [] \<Rightarrow> False
      | c # cs \<Rightarrow> matchesCompound (snd h) c \<and> matchesAncestors cs (fst h))"

definition matchesSelector :: "node list \<times> node \<Rightarrow> simple list list list \<Rightarrow> bool" where
  "matchesSelector h sel = list_ex (matchesComplex h) sel"

text \<open>\<^verbatim>\<open>el.querySelectorAll(sel)\<close> and \<^verbatim>\<open>el.querySelector(sel)\<close>: among the descendants of \<open>el\<close>.\<close>

definition querySelectorAll ::
  "node list \<times> node \<Rightarrow> simple list list list \<Rightarrow> (node list \<times> node) list" where
  "querySelectorAll h sel = filter (\<lambda>d. matchesSelector d sel) (descendants (fst h) (snd h))"

definition querySelector ::
  "node list \<times> node \<Rightarrow> simple list list list \<Rightarrow> (node list \<times> node) option" where
  "querySelector h sel = find (\<lambda>d. matchesSelector d sel) (descendants (fst h) (snd h))"

text \<open>\<^verbatim>\<open>document.querySelectorAll(sel)\<close> and \<^verbatim>\<open>document.querySelector(sel)\<close>: the root counts.\<close>

definition doc_querySelectorAll ::
  "node \<Rightarrow> simple list list list \<Rightarrow> (node list \<times> node) list" where
  "doc_querySelectorAll root sel =
     filter (\<lambda>d. matchesSelector d sel) (([], root) # descendants [] root)"

definition doc_querySelector ::
  "node \<Rightarrow> simple list list list \<Rightarrow> (node list \<times> node) option" where
  "doc_querySelector root sel =
     find (\<lambda>d. matchesSelector d sel) (([], root) # descendants [] root)"

text \<open>The result of \<^verbatim>\<open>querySelector\<close> as a condition: an element is truthy, \<^verbatim>\<open>null\<close> is not.\<close>

definition found :: "'a option \<Rightarrow> bool" where
  "found r = (case r of None \<Rightarrow> False | Some x \<Rightarrow> True)"

text \<open>
  \<^verbatim>\<open>trim()\<close> removes white space and line terminators at both ends; within the code units
  of the model these are U+0009 to U+000D, the space and the no-break space U+00A0.
\<close>

definition isWhiteSpace :: "char \<Rightarrow> bool" where
  "isWhiteSpace c \<longleftrightarrow>
     c \<in> set [CHR 0x09, CHR 0x0A, CHR 0x0B, CHR 0x0C, CHR 0x0D, CHR 0x20, CHR 0xA0]"

definition trim :: "string \<Rightarrow> string" where
  "trim s = rev (dropWhile isWhiteSpace (rev (dropWhile isWhiteSpace s)))"

text \<open>\<^verbatim>\<open>replace(re, ' ')\<close>, where \<^verbatim>\<open>re\<close> matches every no-break space.\<close>

definition nbspToSpace :: "string \<Rightarrow> string" where
  "nbspToSpace s = map (\<lambda>c. if c = CHR 0xA0 then CHR '' '' else c) s"

section \<open>Interaction executor: the scenario after an action (generated server)\<close>

definition sel_popover :: "simple list list list" where
  "sel_popover = [[[Class ''sapMMsgView'']], [[AttrEnds ''id'' ''messagePopover-popover-cont'']],
                  [[Class ''sapMMessageView'']]]"

definition sel_msgBox :: "simple list list list" where
  "sel_msgBox = [[[Class ''sapMDialog'', Class ''sapMMessageBox'']], [[Class ''sapMDialogError'']],
                 [[Class ''sapMMessageDialog'']], [[Class ''sapMMessageBoxError'']],
                 [[AttrEq ''role'' ''alertdialog'', Class ''sapMDialog'']]]"

definition sel_strip :: "simple list list list" where
  "sel_strip = [[[Class ''sapMMessageStrip'']]]"

definition sel_objectPage :: "simple list list list" where
  "sel_objectPage = [[[Class ''sapUxAPObjectPageLayout'']], [[Class ''sapFeCoreObjectPage'']],
                     [[AttrHas ''id'' ''ObjectPage'']]]"

definition sel_formFields :: "simple list list list" where
  "sel_formFields = [[[AttrHas ''id'' ''::Field-edit'']], [[Tag ''input'', AttrHas ''id'' ''-inner'']],
                     [[Class ''sapMInputBase'']]]"

definition sel_openDialog :: "simple list list list" where
  "sel_openDialog = [[[Class ''sapMDialog'', Class ''sapMDialogOpen'']]]"

definition sel_dialogForm :: "simple list list list" where
  "sel_dialogForm = [[[Tag ''form'']], [[Class ''sapUiForm'']],
                     [[Tag ''input'', AttrEqCi ''type'' ''text'']], [[Class ''sapMInputBase'']]]"

definition sel_dialogFooter :: "simple list list list" where
  "sel_dialogFooter = [[[Class ''sapMDialogFooter'']]]"

definition sel_msgItems :: "simple list list list" where
  "sel_msgItems = [[[Class ''sapMMsgViewItem'']], [[Tag ''li'', Class ''sapMMsgViewItem'']],
                   [[Tag ''li'', Class ''sapMLIB'']]]"

definition sel_itemText :: "simple list list list" where
  "sel_itemText = [[[Class ''sapMLnkText'']], [[Class ''sapMSLITitleOnly'']],
                   [[Class ''sapMSLITitleOnly''], [Tag ''span'']],
                   [[Tag ''a''], [Class ''sapMLnkText'']]]"

definition sel_itemTextElse :: "simple list list list" where
  "sel_itemTextElse = [[[Tag ''a'']], [[Tag ''span'']]]"

definition sel_boxText :: "simple list list list" where
  "sel_boxText = [[[Class ''sapMFT'']], [[Class ''sapMMsgBoxText'']], [[AttrEnds ''id'' ''-title'']],
                  [[AttrEnds ''id'' ''-title-inner'']]]"

record message =
  severity :: string
  msg_text :: string

definition severityOf :: "string \<Rightarrow> string" where
  "severityOf cls =
     (if sublist ''Error'' cls then ''Error''
      else if sublist ''Warning'' cls then ''Warning''
      else if sublist ''Success'' cls then ''Success''
      else ''Information'')"

text \<open>\<^verbatim>\<open>(el?.textContent || '')\<close>, with every no-break space replaced by a space, trimmed.\<close>

definition shownText :: "(node list \<times> node) option \<Rightarrow> string" where
  "shownText el = trim (nbspToSpace (case el of None \<Rightarrow> [] | Some h \<Rightarrow> textContent (snd h)))"

text \<open>
  The messages that \<^verbatim>\<open>executeAction\<close> collects after the click: those of the items of the
  message popover, then those of the message boxes.
\<close>

definition popoverMessages :: "simple list list list \<Rightarrow> node \<Rightarrow> message list" where
  "popoverMessages elseSel doc =
     (case doc_querySelector doc sel_popover of
        None \<Rightarrow> []
      | Some popover \<Rightarrow>
          concat (map (\<lambda>li.
              (let textEl = (case querySelector li sel_itemText of
                               Some e \<Rightarrow> Some e
                             | None \<Rightarrow> querySelector li elseSel);
                   txt = shownText textEl
               in if txt \<noteq> [] then [\<lparr> severity = severityOf (className (snd li)), msg_text = txt \<rparr>]
                  else []))
            (querySelectorAll popover sel_msgItems)))"

definition boxMessages :: "node \<Rightarrow> message list" where
  "boxMessages doc =
     concat (map (\<lambda>dlg.
         (let txt = shownText (querySelector dlg sel_boxText)
          in if txt \<noteq> [] then [\<lparr> severity = severityOf (className (snd dlg)), msg_text = txt \<rparr>]
             else []))
       (doc_querySelectorAll doc sel_msgBox))"

definition executeAction_messages :: "node \<Rightarrow> message list" where
  "executeAction_messages doc = popoverMessages sel_itemTextElse doc @ boxMessages doc"

text \<open>
  The dialog test shared by both classifiers: the first open dialog of the document has a
  form-like descendant and a footer.
\<close>

definition hasFormDialog :: "node \<Rightarrow> bool" where
  "hasFormDialog doc =
     (case doc_querySelector doc sel_openDialog of
        None \<Rightarrow> False
      | Some dialog \<Rightarrow>
          found (querySelector dialog sel_dialogForm) \<and> found (querySelector dialog sel_dialogFooter))"

definition hasFormOrObjectPage :: "node \<Rightarrow> bool" where
  "hasFormOrObjectPage doc \<longleftrightarrow>
     found (doc_querySelector doc sel_objectPage) \<or> found (doc_querySelector doc sel_formFields)"

text \<open>
  The scenario that \<^verbatim>\<open>executeAction\<close> reports for the document it finds after the click:
  the messages are collected first, and any message ends the classification.
\<close>

definition executeAction_scenario :: "node \<Rightarrow> string" where
  "executeAction_scenario doc =
     (if executeAction_messages doc \<noteq> [] then ''error_messages''
      else if hasFormDialog doc then ''popup_dialog''
      else if hasFormOrObjectPage doc then ''form_opened''
      else ''action_completed'')"

text \<open>
  The scenario that \<^verbatim>\<open>executeTableAction\<close> reports for the document it finds after the
  click on the toolbar button: the dialog test comes first.
\<close>

definition executeTableAction_scenario :: "node \<Rightarrow> string" where
  "executeTableAction_scenario doc =
     (if hasFormDialog doc then ''popup_dialog''
      else if found (doc_querySelector doc sel_popover) \<or> found (doc_querySelector doc sel_msgBox)
              \<or> found (doc_querySelector doc sel_strip)
      then ''error_messages''
      else if hasFormOrObjectPage doc then ''form_opened''
      else ''action_completed'')"

section \<open>Row extraction: \<^verbatim>\<open>getTableRows\<close> (generated server), \<^verbatim>\<open>extractRows\<close> (read-rows.js)\<close>

text \<open>\<^verbatim>\<open>s.replace(/suf$/, '')\<close> for a literal \<open>suf\<close>.\<close>

definition stripSuffix :: "string \<Rightarrow> string \<Rightarrow> string" where
  "stripSuffix suf s = (if suffix suf s then take (length s - length suf) s else s)"

text \<open>
  The text of a body cell: the trimmed \<^verbatim>\<open>textContent\<close> of the cell and, when that is
  empty, the trimmed space-joined \<^verbatim>\<open>textContent\<close> of the cell's \<^verbatim>\<open>span\<close> descendants.
\<close>

definition cellText :: "node list \<times> node \<Rightarrow> string" where
  "cellText td =
     (let txt = trim (textContent (snd td))
      in if txt \<noteq> [] then txt
         else trim (join '' '' (map (\<lambda>s. textContent (snd s)) (querySelectorAll td [[[Tag ''span'']]]))))"

text \<open>
  \<^verbatim>\<open>columnMap\<close> and \<^verbatim>\<open>rowObj\<close> are objects with string keys: an assignment replaces the
  value of a key in place or adds the key at the end.  Properties inherited from
  \<^verbatim>\<open>Object.prototype\<close> are not modelled, and neither is the place that JavaScript gives
  to keys that are array indices (before the other keys, in ascending order): the
  association list keeps the order of insertion for every key.
\<close>

definition columnMapOf :: "(node list \<times> node) list \<Rightarrow> (string \<times> string) list" where
  "columnMapOf headerCells =
     foldl (\<lambda>columnMap th.
         (let hid = elementId (snd th);
              after = (case js_or (nth_opt (split ''::C::'' hid) 1) (Some []) of
                         None \<Rightarrow> [] | Some a \<Rightarrow> a);
              key = stripSuffix ''-innerColumn'' after
          in AList.update hid (if key \<noteq> [] then key else hid) columnMap))
       [] headerCells"

definition rowOf :: "(string \<times> string) list \<Rightarrow> node list \<times> node \<Rightarrow> (string \<times> string) list" where
  "rowOf columnMap tr =
     foldl (\<lambda>rowObj td.
         (let colId = the (getAttribute (snd td) ''data-sap-ui-column'');
              key = (case js_or (map_of columnMap colId) (Some colId) of
                       None \<Rightarrow> [] | Some k \<Rightarrow> k)
          in if key \<noteq> [] then AList.update key (cellText td) rowObj else rowObj))
       [] (querySelectorAll tr [[[Tag ''td'', HasAttr ''data-sap-ui-column'']]])"

record tableRows =
  tableListId :: string
  rows :: "(string \<times> string) list list"
  tr_rowCount :: nat

definition getTableRows :: "node \<Rightarrow> tableRows list" where
  "getTableRows doc =
     map (\<lambda>tbl.
         (let basePrefix = stripSuffix ''-innerTable-listUl'' (elementId (snd tbl));
              headerRow = doc_querySelector doc [[[AttrEq ''id'' (basePrefix @ ''-innerTable-tblHeader'')]]];
              headerCells = (case headerRow of
                               None \<Rightarrow> []
                             | Some hr \<Rightarrow> querySelectorAll hr [[[Tag ''th'', AttrEnds ''id'' ''-innerColumn'']]]);
              columnMap = columnMapOf headerCells;
              rs = map (rowOf columnMap)
                     (querySelectorAll tbl [[[Tag ''tbody''], [Tag ''tr'', Class ''sapMListTblRow'']]])
          in \<lparr> tableListId = elementId (snd tbl), rows = rs, tr_rowCount = length rs \<rparr>))
       (doc_querySelectorAll doc [[[Tag ''table'', AttrEnds ''id'' ''-innerTable-listUl'']]])"

section \<open>Concrete pages used below\<close>

text \<open>
  A page after a click: an open dialog with a form and a footer, and a message popover
  with one item of the error class.
\<close>

definition exDialogAndPopover :: node where
  "exDialogAndPopover =
     Element ''html'' []
       [Element ''div'' [(''id'', ''dlg1''), (''class'', ''sapMDialog sapMDialogOpen'')]
          [Element ''form'' [] [Element ''input'' [(''type'', ''text'')] []],
           Element ''footer'' [(''class'', ''sapMDialogFooter'')] []],
        Element ''div'' [(''class'', ''sapMMsgView'')]
          [Element ''li'' [(''class'', ''sapMMsgViewItem sapMMsgViewItemError'')]
             [Element ''span'' [] [TextNode ''Enter a valid date'']]]]"

text \<open>A body cell whose text lives in two spans, and no text of its own.\<close>

definition exCurrencyCell :: node where
  "exCurrencyCell =
     Element ''td'' [(''data-sap-ui-column'', ''T::C::Price-innerColumn'')]
       [Element ''span'' [] [TextNode ''100''], Element ''span'' [] [TextNode ''USD'']]"

definition exRow :: node where
  "exRow = Element ''tr'' [(''class'', ''sapMLIB sapMListTblRow'')] [exCurrencyCell]"

text \<open>A page with one table of three such rows.\<close>

definition exTablePage :: node where
  "exTablePage =
     Element ''html'' []
       [Element ''table'' [(''id'', ''T-innerTable-listUl'')]
          [Element ''thead'' []
             [Element ''tr'' [(''id'', ''T-innerTable-tblHeader'')]
                [Element ''th'' [(''id'', ''T::C::Price-innerColumn'')] [TextNode ''Price'']]],
           Element ''tbody'' [] [exRow, exRow, exRow]]]"

section \<open>Control scanner: \<^verbatim>\<open>extractUi5Controls\<close> (scan)\<close>

text \<open>
  A call into the framework either throws or returns.  An entry of the element registry
  is described by what its accessors answer when the scanner calls them; an accessor that
  the entry does not have answers \<^verbatim>\<open>undefined\<close>.
\<close>

datatype 'a outcome = Throws | Returns 'a

definition andThen :: "'a outcome \<Rightarrow> ('a \<Rightarrow> 'b outcome) \<Rightarrow> 'b outcome" where
  "andThen m f = (case m of Throws \<Rightarrow> Throws | Returns x \<Rightarrow> f x)"

text \<open>\<^verbatim>\<open>try { x = ... } catch (e) { x = undefined }\<close>\<close>

definition caught :: "'a option outcome \<Rightarrow> 'a option" where
  "caught m = (case m of Throws \<Rightarrow> None | Returns v \<Rightarrow> v)"

record domRef =
  d_role :: "string option"
  d_ariaLabel :: "string option"
  d_ariaDescribedBy :: "string option"
  d_dataSapUi :: "string option"

text \<open>
  \<open>getName\<close> is \<^verbatim>\<open>control.getMetadata?.()?.getName?.()\<close>; \<open>getPlaceholder\<close>, \<open>getValue\<close>,
  \<open>getTooltip\<close> and \<open>getTextChain\<close> (the first of \<^verbatim>\<open>getText\<close>, \<^verbatim>\<open>getTitle\<close>, \<^verbatim>\<open>getLabel\<close> that
  the entry has) are read through \<^verbatim>\<open>toStringSafe\<close>; \<open>getBindings\<close> is the loop over
  \<^verbatim>\<open>mBindingInfos\<close>; \<open>getLabels\<close> is the text of the referencing labels; \<open>getTableInfo\<close> is
  the block that counts rows and columns; \<open>getFilterBar\<close> is the block that reads the basic
  search and the filter items, each item with the outcome of reading it.
\<close>

record entry =
  getName :: "string option outcome"
  getId :: "string option outcome"
  getDomRef :: "domRef option outcome"
  getVisible :: "bool option outcome"
  getEnabled :: "bool option outcome"
  getPlaceholder :: "string option outcome"
  getValue :: "string option outcome"
  getTextChain :: "string option outcome"
  getTooltip :: "string option outcome"
  getBindings :: "(string \<times> string) list outcome"
  getLabels :: "string option outcome"
  getTableInfo :: "tableInfo outcome"
  getFilterBar :: "(bool \<times> filterItem outcome list) outcome"

definition typeHas :: "(string \<Rightarrow> bool) \<Rightarrow> string option \<Rightarrow> bool" where
  "typeHas P t = (case t of None \<Rightarrow> False | Some s \<Rightarrow> P s)"

definition interactiveTypes :: "string list" where
  "interactiveTypes =
     [''sap.m.Button'', ''sap.m.OverflowToolbarButton'', ''sap.m.MenuButton'', ''sap.m.Link'',
      ''sap.m.Input'', ''sap.m.SearchField'', ''sap.m.TextArea'', ''sap.m.Select'',
      ''sap.m.ComboBox'', ''sap.m.MultiComboBox'', ''sap.m.CheckBox'', ''sap.m.RadioButton'',
      ''sap.m.Switch'', ''sap.m.DatePicker'', ''sap.m.DateRangeSelection'',
      ''sap.m.SegmentedButton'', ''sap.ui.table.Table'', ''sap.m.Table'', ''sap.m.List'',
      ''sap.ui.comp.smartfilterbar.SmartFilterBar'', ''sap.ui.mdc.FilterBar'',
      ''sap.fe.macros.FilterBarAPI'', ''sap.m.Dialog'', ''sap.f.Dialog'']"

definition isInteractive :: "string option \<Rightarrow> bool" where
  "isInteractive typeName \<longleftrightarrow>
     truthy typeName \<and> list_ex (\<lambda>p. prefix p (the typeName)) interactiveTypes"

definition isShellType :: "string option \<Rightarrow> bool" where
  "isShellType typeName \<longleftrightarrow>
     truthy typeName \<and> (prefix ''sap.ushell'' (the typeName) \<or> prefix ''sap.ui.core.'' (the typeName))"

text \<open>The role hint: the first test that holds, in the order of the source.\<close>

definition classifyRole :: "string option \<Rightarrow> string option \<Rightarrow> string option" where
  "classifyRole t role =
     (if typeHas (prefix ''sap.m.Button'') t \<or> role = Some ''button''
         \<or> typeHas (sublist ''MenuButton'') t then Some ''button''
      else if list_ex (\<lambda>p. typeHas (prefix p) t)
                [''sap.m.Input'', ''sap.m.SearchField'', ''sap.m.TextArea'', ''sap.m.DatePicker'',
                 ''sap.m.DateRangeSelection''] then Some ''input''
      else if list_ex (\<lambda>p. typeHas (prefix p) t)
                [''sap.m.Select'', ''sap.m.ComboBox'', ''sap.m.MultiComboBox''] then Some ''select''
      else if typeHas (sublist ''.Table'') t \<or> typeHas (suffix ''.List'') t then Some ''table''
      else if typeHas (sublist ''FilterBar'') t then Some ''filterbar''
      else if typeHas (suffix ''.Dialog'') t \<or> role = Some ''dialog'' then Some ''dialog''
      else if typeHas (sublist ''Link'') t then Some ''link''
      else None)"

text \<open>\<^verbatim>\<open>id?.includes('--') ? id.split('--').pop() : id\<close>\<close>

definition localIdOf :: "string option \<Rightarrow> string option" where
  "localIdOf i =
     (case i of None \<Rightarrow> None
      | Some s \<Rightarrow> if sublist ''--'' s then pop (split ''--'' s) else Some s)"

text \<open>
  The filter-bar block: an item whose reading throws yields \<^verbatim>\<open>undefined\<close> and is filtered
  out of \<^verbatim>\<open>items\<close>, while \<^verbatim>\<open>filterItemCount\<close> counts all items.
\<close>

definition filterBarInfoOf :: "bool \<times> filterItem outcome list \<Rightarrow> filterBarInfo" where
  "filterBarInfoOf fb =
     \<lparr> basicSearchPresent = fst fb,
       filterItemCount = Some (length (snd fb)),
       items = Some (concat (map (\<lambda>r. case r of Throws \<Rightarrow> [] | Returns it \<Rightarrow> [it]) (snd fb))) \<rparr>"

text \<open>
  The body of the callback of \<^verbatim>\<open>registry.forEach\<close>, inside its \<^verbatim>\<open>try\<close>: \<open>Throws\<close> when an
  exception reaches the \<^verbatim>\<open>catch\<close> of the callback, \<open>Returns None\<close> when the callback returns
  early, \<open>Returns (Some c)\<close> when it pushes the control \<open>c\<close>.
\<close>

definition extractEntry :: "bool \<Rightarrow> entry \<Rightarrow> control option outcome" where
  "extractEntry includeShell e =
     andThen (getName e) (\<lambda>ty.
     andThen (getId e) (\<lambda>i.
     andThen (getDomRef e) (\<lambda>dom.
       case dom of
         None \<Rightarrow> Returns None
       | Some d \<Rightarrow>
           if \<not> includeShell \<and> isShellType ty \<and> \<not> isInteractive ty then Returns None
           else
             andThen (getVisible e) (\<lambda>vis.
             andThen (getEnabled e) (\<lambda>en.
             andThen (getPlaceholder e) (\<lambda>ph.
             andThen (getValue e) (\<lambda>val.
             andThen (getBindings e) (\<lambda>bindings.
               (let role = js_or (d_role d) None;
                    roleHint = classifyRole ty role
                in Returns (Some
                     \<lparr> c_id = i, c_type = ty, c_role = role, c_roleHint = roleHint,
                       c_text = caught (getTextChain e),
                       c_labelText = caught (getLabels e),
                       c_value = val, c_placeholder = ph,
                       c_tooltip = caught (getTooltip e),
                       c_visible = (case vis of None \<Rightarrow> True | Some b \<Rightarrow> b),
                       c_enabled = (case en of None \<Rightarrow> True | Some b \<Rightarrow> b),
                       c_ariaLabel = js_or (d_ariaLabel d) None,
                       c_ariaDescribedBy = js_or (d_ariaDescribedBy d) None,
                       c_bindingPaths = bindings,
                       c_localId = localIdOf i,
                       c_selectors =
                         \<lparr> sel_id = i, sel_cssId = CHR ''#'' # show_opt (cssEscape i),
                           sel_role = role, sel_dataSapUi = js_or (d_dataSapUi d) None \<rparr>,
                       c_tableInfo =
                         (if roleHint = Some ''table''
                          then (case getTableInfo e of Throws \<Rightarrow> None | Returns ti \<Rightarrow> Some ti)
                          else None),
                       c_filterBarInfo =
                         (if roleHint = Some ''filterbar''
                          then (case getFilterBar e of
                                  Throws \<Rightarrow> None
                                | Returns fb \<Rightarrow> Some (filterBarInfoOf fb))
                          else None) \<rparr>))))))))))"

record scanResult =
  sr_ready :: bool
  sr_controls :: "control list"

text \<open>
  \<^verbatim>\<open>extractUi5Controls\<close>: the registry is absent when the framework is not loaded.  The
  callback catches every exception and pushes nothing for that entry.
\<close>

definition extractUi5Controls :: "bool \<Rightarrow> entry list option \<Rightarrow> scanResult" where
  "extractUi5Controls includeShell registry =
     (case registry of
        None \<Rightarrow> \<lparr> sr_ready = False, sr_controls = [] \<rparr>
      | Some es \<Rightarrow>
          \<lparr> sr_ready = True,
            sr_controls =
              foldl (\<lambda>acc e. case extractEntry includeShell e of
                                Returns (Some c) \<Rightarrow> acc @ [c]
                              | _ \<Rightarrow> acc)
                [] es \<rparr>)"

text \<open>What the callback pushes for an entry: one control or nothing.\<close>

definition pushed :: "bool \<Rightarrow> entry \<Rightarrow> control list" where
  "pushed includeShell e =
     (case extractEntry includeShell e of Returns (Some c) \<Rightarrow> [c] | _ \<Rightarrow> [])"

section \<open>Concrete registry entries used below\<close>

definition plainEntry :: "string \<Rightarrow> string \<Rightarrow> entry" where
  "plainEntry ty i =
     \<lparr> getName = Returns (Some ty), getId = Returns (Some i),
       getDomRef = Returns (Some \<lparr> d_role = None, d_ariaLabel = None, d_ariaDescribedBy = None,
                                  d_dataSapUi = Some i \<rparr>),
       getVisible = Returns (Some True), getEnabled = Returns (Some True),
       getPlaceholder = Returns None, getValue = Returns None,
       getTextChain = Returns (Some ''Go''), getTooltip = Returns None,
       getBindings = Returns [], getLabels = Returns (Some []),
       getTableInfo = Returns \<lparr> rowCount = Some 0, columnCount = Some 0 \<rparr>,
       getFilterBar = Returns (False, []) \<rparr>"

text \<open>A button, an entry whose \<^verbatim>\<open>getId\<close> throws, and a table whose row count throws.\<close>

definition exButton :: entry where
  "exButton = plainEntry ''sap.m.Button'' ''v--btnGo''"

definition exFaulty :: entry where
  "exFaulty = (plainEntry ''sap.m.Input'' ''v--in'') \<lparr> getId := Throws \<rparr>"

definition exTable :: entry where
  "exTable = (plainEntry ''sap.m.Table'' ''v--tbl'') \<lparr> getTableInfo := Throws, getTextChain := Throws \<rparr>"

section \<open>Concrete scans used below\<close>

definition emptyControl :: control where
  "emptyControl =
     \<lparr> c_id = None, c_type = None, c_role = None, c_roleHint = None, c_text = None,
       c_labelText = None, c_value = None, c_placeholder = None, c_tooltip = None,
       c_visible = True, c_enabled = True, c_ariaLabel = None, c_ariaDescribedBy = None,
       c_bindingPaths = [], c_localId = None,
       c_selectors = \<lparr> sel_id = None, sel_cssId = ''#undefined'', sel_role = None,
                       sel_dataSapUi = None \<rparr>,
       c_tableInfo = None, c_filterBarInfo = None \<rparr>"

definition filterBarWith :: "string \<Rightarrow> nat \<Rightarrow> control" where
  "filterBarWith i n =
     emptyControl \<lparr> c_id := Some i, c_roleHint := Some ''filterbar'',
       c_filterBarInfo :=
         Some \<lparr> basicSearchPresent = False, filterItemCount = Some n, items = Some [] \<rparr> \<rparr>"

text \<open>Three filter bars with 2, 3 and 3 items, and a control that is no filter bar.\<close>

definition exBars :: "control list" where
  "exBars = [filterBarWith ''fbA'' 2, emptyControl \<lparr> c_id := Some ''btn'' \<rparr>,
             filterBarWith ''fbB'' 3, filterBarWith ''fbC'' 3]"

text \<open>
  A scan with one line-item table and one column control, whose key is \<^verbatim>\<open>Status\<close> and
  whose header text is \<^verbatim>\<open>Overall Status\<close>; the settings dialog of that table lists the
  labels \<^verbatim>\<open>Overall Status\<close> and \<^verbatim>\<open>Status\<close>.
\<close>

definition exScan :: "control list" where
  "exScan =
     [emptyControl \<lparr> c_id := Some ''v--fe::table::Travel::LineItem'',
                      c_type := Some ''sap.ui.mdc.Table'' \<rparr>,
      emptyControl \<lparr> c_id := Some ''v--fe::table::Travel::LineItem::C::Status'',
                      c_type := Some ''sap.ui.mdc.table.Column'',
                      c_text := Some ''Overall Status'' \<rparr>]"

definition exP13n :: "p13nEntry list" where
  "exP13n = [\<lparr> p_tableId = ''v--fe::table::Travel::LineItem'',
               p_columns = Some [''Overall Status'', ''Status''] \<rparr>]"

text \<open>The settings dialog of the same table, listing the label \<^verbatim>\<open>Notes\<close> for two columns.\<close>

definition exP13nRepeated :: "p13nEntry list" where
  "exP13nRepeated = [\<lparr> p_tableId = ''v--fe::table::Travel::LineItem'',
                       p_columns = Some [''Overall Status'', ''Notes'', ''Notes''] \<rparr>]"

definition exColumn :: column where
  "exColumn = \<lparr> col_propertyKey = ''Status'', col_label = ''Overall Status'',
                headerColumnId = None, headerColumnCss = None \<rparr>"

section \<open>Properties of the identifier codec\<close>

lemma cssEscape_str_append:
  "cssEscape_str (xs @ ys) = cssEscape_str xs @ cssEscape_str ys"
  by (induction xs) simp_all

lemma cssEscape_str_length:
  "length (cssEscape_str s) = length s + length (filter (\<lambda>c. c \<in> set cssSpecial) s)"
  by (induction s) simp_all

lemma cssEscape_str_fixed_iff:
  "cssEscape_str s = s \<longleftrightarrow> set s \<inter> set cssSpecial = {}"
proof
  assume eq: "cssEscape_str s = s"
  have "length (filter (\<lambda>c. c \<in> set cssSpecial) s) = 0"
    using cssEscape_str_length [of s] eq by simp
  then show "set s \<inter> set cssSpecial = {}"
    by (auto simp: filter_empty_conv)
next
  assume "set s \<inter> set cssSpecial = {}"
  then show "cssEscape_str s = s"
    by (induction s) auto
qed

lemma cssSpecial_is_listed_plus_colon:
  "set cssSpecial = insert (CHR '':'') (set specListed)"
  by (auto simp: cssSpecial_def specListed_def)

text \<open>
  C5, as stated, fails: the id \<^verbatim>\<open>a:b\<close> contains none of the characters that the
  specification lists, and \<^verbatim>\<open>cssEscape\<close> changes it to \<^verbatim>\<open>a\:b\<close>, because the character
  class of the source also holds the colon.
\<close>

theorem cssEscape_colon_counterexample:
  "set ''a:b'' \<inter> set specListed = {} \<and> cssEscape (Some ''a:b'') \<noteq> Some ''a:b''"
  by (simp add: cssEscape_def cssSpecial_def specListed_def)

text \<open>
  C5, amended: the escaped characters are the listed ones and the colon.  Escaping works
  character by character (it distributes over concatenation); a single character of that
  set becomes a backslash followed by the character, any other character is copied; so the
  result is longer than the id by exactly the number of occurrences of such characters, and
  an id is returned unchanged exactly when it contains none of them.  An absent id stays
  absent.
\<close>

theorem cssEscape_prefixes_each_special_once:
  "cssEscape None = None
   \<and> cssEscape (Some (xs @ ys)) = Some (cssEscape_str xs @ cssEscape_str ys)
   \<and> cssEscape (Some [c]) =
        Some (if c = CHR '':'' \<or> c \<in> set specListed then [backslash, c] else [c])
   \<and> length (the (cssEscape (Some s))) =
        length s + length (filter (\<lambda>c. c = CHR '':'' \<or> c \<in> set specListed) s)
   \<and> (cssEscape (Some s) = Some s \<longleftrightarrow> CHR '':'' \<notin> set s \<and> set s \<inter> set specListed = {})"
proof -
  have sp: "\<And>c. c \<in> set cssSpecial \<longleftrightarrow> c = CHR '':'' \<or> c \<in> set specListed"
    by (simp add: cssSpecial_is_listed_plus_colon)
  have len: "length (cssEscape_str s) =
      length s + length (filter (\<lambda>c. c = CHR '':'' \<or> c \<in> set specListed) s)"
    by (simp add: cssEscape_str_length sp)
  have fixed: "cssEscape_str s = s \<longleftrightarrow> CHR '':'' \<notin> set s \<and> set s \<inter> set specListed = {}"
    by (auto simp: cssEscape_str_fixed_iff cssSpecial_is_listed_plus_colon)
  show ?thesis
    using len fixed by (simp add: cssEscape_def cssEscape_str_append sp)
qed

section \<open>Properties of the action classification\<close>

text \<open>
  C10: \<^verbatim>\<open>classifyActionId\<close> answers \<^verbatim>\<open>unknown\<close> for an absent (null or undefined) id and
  for the empty id, a tag outside the three-way taxonomy; for every non-empty id it answers
  one of \<^verbatim>\<open>standard\<close>, \<^verbatim>\<open>custom\<close> and \<^verbatim>\<open>custom_candidate\<close>.
\<close>

theorem classifyActionId_unknown_only_when_empty:
  "classifyActionId None = ''unknown''
   \<and> classifyActionId (Some []) = ''unknown''
   \<and> ''unknown'' \<notin> {''standard'', ''custom'', ''custom_candidate''}
   \<and> (i \<noteq> [] \<longrightarrow>
        classifyActionId (Some i) \<in> {''standard'', ''custom'', ''custom_candidate''})"
  by (simp add: classifyActionId_def)

theorem classifyActionId_unknown_only_when_empty_witness:
  "''T::CustomAction::Approve'' \<noteq> []
   \<and> classifyActionId (Some ''T::CustomAction::Approve'') = ''custom''
   \<and> classifyActionId (Some ''T::CustomAction::Approve'')
        \<in> {''standard'', ''custom'', ''custom_candidate''}"
proof -
  have run: "classifyActionId (Some ''T::CustomAction::Approve'') = ''custom''"
    by code_simp
  show ?thesis
    using classifyActionId_unknown_only_when_empty [of "''T::CustomAction::Approve''"] run
    by simp
qed

section \<open>Properties of the metadata reconciler\<close>

subsection \<open>The primary filter bar\<close>

lemma better_same: "better b b = b"
  by (simp add: better_def)

text \<open>
  The reduction started at \<open>b\<close> over \<open>xs\<close> ends at the first position of \<open>b # xs\<close> that
  holds the maximal count.  Induction from the right, the way the reduction proceeds.
\<close>

lemma foldl_better_first_max:
  "\<exists>i < length (b # xs).
      foldl better b xs = (b # xs) ! i
      \<and> (\<forall>j < length (b # xs). itemCount ((b # xs) ! j) \<le> itemCount ((b # xs) ! i))
      \<and> (\<forall>j < i. itemCount ((b # xs) ! j) < itemCount ((b # xs) ! i))"
proof (induction xs rule: rev_induct)
  case Nil
  show ?case by simp
next
  case (snoc x xs)
  let ?l = "b # xs"
  from snoc obtain i where i: "i < length ?l" "foldl better b xs = ?l ! i"
    and mx: "\<forall>j < length ?l. itemCount (?l ! j) \<le> itemCount (?l ! i)"
    and fst: "\<forall>j < i. itemCount (?l ! j) < itemCount (?l ! i)"
    by blast
  have app: "b # xs @ [x] = ?l @ [x]" by simp
  show ?case
  proof (cases "itemCount x > itemCount (?l ! i)")
    case True
    have "foldl better b (xs @ [x]) = x" using True i by (simp add: better_def)
    moreover have "(?l @ [x]) ! length ?l = x" by (simp only: nth_append_length)
    moreover have "\<forall>j < length (?l @ [x]). itemCount ((?l @ [x]) ! j) \<le> itemCount x"
      using mx True
      by (auto simp: nth_append less_Suc_eq simp del: append_Cons length_Cons nth_Cons_Suc)
    moreover have "\<forall>j < length ?l. itemCount ((?l @ [x]) ! j) < itemCount x"
      using mx True by (auto simp: nth_append simp del: append_Cons nth_Cons_Suc)
    ultimately show ?thesis
      unfolding app by (intro exI[of _ "length ?l"]) (simp del: append_Cons nth_Cons_Suc)
  next
    case False
    have "foldl better b (xs @ [x]) = ?l ! i" using False i by (simp add: better_def)
    moreover have "(?l @ [x]) ! i = ?l ! i" using i by (simp add: nth_append del: append_Cons)
    moreover have "\<forall>j < length (?l @ [x]). itemCount ((?l @ [x]) ! j) \<le> itemCount (?l ! i)"
      using mx False by (auto simp: nth_append less_Suc_eq simp del: append_Cons nth_Cons_Suc)
    moreover have "\<forall>j < i. itemCount ((?l @ [x]) ! j) < itemCount (?l ! i)"
      using fst i by (auto simp: nth_append simp del: append_Cons nth_Cons_Suc)
    ultimately show ?thesis
      unfolding app using i by (intro exI[of _ i]) (simp del: append_Cons nth_Cons_Suc)
  qed
qed

text \<open>
  C8: when the scan holds at least one filter-bar control, the primary filter bar is the
  filter-bar control with the greatest item count, and among several with that count the
  earliest in scan order: every filter bar has at most its count, and every filter bar
  before it has a strictly smaller count.
\<close>

theorem primaryFilterBar_most_items_first_seen:
  "filterBars controls \<noteq> [] \<Longrightarrow>
   \<exists>i < length (filterBars controls).
      primaryFilterBar controls = Some (filterBars controls ! i)
      \<and> (\<forall>j < length (filterBars controls).
            itemCount (filterBars controls ! j) \<le> itemCount (filterBars controls ! i))
      \<and> (\<forall>j < i. itemCount (filterBars controls ! j) < itemCount (filterBars controls ! i))"
proof -
  assume ne: "filterBars controls \<noteq> []"
  then obtain fb0 rest where fbs: "filterBars controls = fb0 # rest"
    by (cases "filterBars controls") auto
  have "primaryFilterBar controls = Some (foldl better fb0 rest)"
    by (simp add: primaryFilterBar_def fbs better_same)
  with foldl_better_first_max [of fb0 rest] show ?thesis
    unfolding fbs by metis
qed

theorem primaryFilterBar_most_items_first_seen_witness:
  "filterBars exBars \<noteq> []
   \<and> primaryFilterBar exBars = Some (filterBarWith ''fbB'' 3)
   \<and> (\<exists>i < length (filterBars exBars).
        primaryFilterBar exBars = Some (filterBars exBars ! i)
        \<and> (\<forall>j < length (filterBars exBars).
              itemCount (filterBars exBars ! j) \<le> itemCount (filterBars exBars ! i))
        \<and> (\<forall>j < i. itemCount (filterBars exBars ! j) < itemCount (filterBars exBars ! i)))"
proof -
  have ne: "filterBars exBars \<noteq> []" by code_simp
  have run: "primaryFilterBar exBars = Some (filterBarWith ''fbB'' 3)" by code_simp
  show ?thesis
    using primaryFilterBar_most_items_first_seen [OF ne] ne run by simp
qed

subsection \<open>Deduplication of filters and of scanned columns\<close>

lemma mkFilter_key: "propertyKey (mkFilter k it) = k"
  by (simp add: mkFilter_def Let_def)

lemma dedupStep_inv:
  "map propertyKey (snd st) = fst st \<Longrightarrow> distinct (fst st) \<Longrightarrow>
   map propertyKey (snd (dedupStep st it)) = fst (dedupStep st it)
   \<and> distinct (fst (dedupStep st it))"
  by (simp add: dedupStep_def Let_def mkFilter_key)

lemma dedup_inv:
  "map propertyKey (snd st) = fst st \<Longrightarrow> distinct (fst st) \<Longrightarrow>
   map propertyKey (snd (foldl dedupStep st its)) = fst (foldl dedupStep st its)
   \<and> distinct (fst (foldl dedupStep st its))"
proof (induction its arbitrary: st)
  case Nil
  then show ?case by simp
next
  case (Cons it its)
  show ?case
    using Cons.IH [of "dedupStep st it"] dedupStep_inv [OF Cons.prems] by simp
qed

lemma extractFilters_distinct: "distinct (map propertyKey (extractFilters controls))"
  using dedup_inv [of "([], [])" "collectItems controls"] by (simp add: extractFilters_def)

lemma columnStep_inv:
  "map col_propertyKey (snd st) = fst st \<Longrightarrow> distinct (fst st) \<Longrightarrow>
   map col_propertyKey (snd (columnStep b cc st c)) = fst (columnStep b cc st c)
   \<and> distinct (fst (columnStep b cc st c))"
  by (simp add: columnStep_def Let_def)

lemma column_inv:
  "map col_propertyKey (snd st) = fst st \<Longrightarrow> distinct (fst st) \<Longrightarrow>
   map col_propertyKey (snd (foldl (columnStep b cc) st cs)) = fst (foldl (columnStep b cc) st cs)
   \<and> distinct (fst (foldl (columnStep b cc) st cs))"
proof (induction cs arbitrary: st)
  case Nil
  then show ?case by simp
next
  case (Cons c cs)
  show ?case
    using Cons.IH [of "columnStep b cc st c"] columnStep_inv [OF Cons.prems] by simp
qed

lemma tableColumns_distinct: "distinct (map col_propertyKey (tableColumns controls b))"
  using column_inv [of "([], [])"] by (simp add: tableColumns_def Let_def)

lemma extractTables_distinct:
  "t \<in> set (extractTables controls) \<Longrightarrow> distinct (map col_propertyKey (columns t))"
  by (auto simp: extractTables_def mkTable_def Let_def tableColumns_distinct)

subsection \<open>The merge of dialog-sourced columns\<close>

lemma foldl_merge_acc:
  "foldl (\<lambda>merged l. if l \<in> E then merged else merged @ [labelOnly l]) acc ls
     = acc @ map labelOnly (filter (\<lambda>l. l \<notin> E) ls)"
  by (induction ls arbitrary: acc) simp_all

lemma mergeColumns_closed:
  "mergeColumns cols ls = cols @ map labelOnly (filter (\<lambda>l. l \<notin> col_label ` set cols) ls)"
  by (simp add: mergeColumns_def foldl_merge_acc)

lemma findIndex_less: "findIndex P xs = Some i \<Longrightarrow> i < length xs"
  by (induction xs arbitrary: i) (auto split: if_splits)

lemma mergeEntry_length: "length (mergeEntry tables t) = length tables"
  by (simp add: mergeEntry_def split: option.splits)

lemma findIndex_Some_iff:
  "findIndex P xs = Some i \<longleftrightarrow> i < length xs \<and> P (xs ! i) \<and> (\<forall>j < i. \<not> P (xs ! j))"
proof (induction xs arbitrary: i)
  case Nil
  show ?case by simp
next
  case (Cons x xs)
  show ?case
  proof (cases "P x")
    case True
    then show ?thesis by (cases i) auto
  next
    case False
    show ?thesis
    proof (cases i)
      case 0
      with False show ?thesis by auto
    next
      case (Suc k)
      have "(\<forall>j < Suc k. \<not> P ((x # xs) ! j)) \<longleftrightarrow> (\<forall>j < k. \<not> P (xs ! j))"
        using False by (auto simp: less_Suc_eq_0_disj)
      with False Suc Cons.IH [of k] show ?thesis by auto
    qed
  qed
qed

lemma findIndex_None_iff: "findIndex P xs = None \<longleftrightarrow> (\<forall>x \<in> set xs. \<not> P x)"
  by (induction xs) auto

text \<open>
  What one round of the merge writes.  The target is the first table that the entry of
  the dialog matches; its columns become its former columns, unchanged and in place,
  followed by one label-only column for each occurrence in the dialog's list of a label
  that none of the former columns has; every other table is left as it is.  Without a
  target nothing changes.
\<close>

lemma mergeEntry_target:
  assumes "i < length tables" and "isTarget t (tables ! i)"
    and "\<forall>j < i. \<not> isTarget t (tables ! j)"
  shows "mergeEntry tables t =
           tables[i := (tables ! i)
             \<lparr> columns :=
                 columns (tables ! i)
                 @ map labelOnly
                     (filter (\<lambda>l. l \<notin> col_label ` set (columns (tables ! i)))
                        (case p_columns t of None \<Rightarrow> [] | Some ls \<Rightarrow> ls)),
               columnsSource := Some ''scan+dialog'' \<rparr>]"
proof -
  from assms have "findIndex (isTarget t) tables = Some i"
    by (simp add: findIndex_Some_iff)
  then show ?thesis
    by (simp add: mergeEntry_def mergeColumns_closed)
qed

lemma mergeEntry_no_target:
  "\<forall>x \<in> set tables. \<not> isTarget t x \<Longrightarrow> mergeEntry tables t = tables"
  by (simp add: mergeEntry_def findIndex_None_iff [THEN iffD2])

text \<open>
  C4 fails where the dialog lists a label more than once.  The merge leaves the columns
  the table had before it unchanged and adds nothing for a label one of them has
  (\<open>mergeColumns_closed\<close>, \<open>mergeEntry_target\<close>), but \<^verbatim>\<open>existingLabels\<close> is not updated when a
  column is appended.  For the scan \<open>exScan\<close> and a dialog that lists \<^verbatim>\<open>Overall Status\<close>,
  \<^verbatim>\<open>Notes\<close> and \<^verbatim>\<open>Notes\<close>, the label \<^verbatim>\<open>Overall Status\<close> adds nothing, the first \<^verbatim>\<open>Notes\<close>
  is appended, and the second \<^verbatim>\<open>Notes\<close> is appended again although a column with that
  exact label is in the list by then: the table ends with two equal entries.
\<close>

theorem reconcile_repeated_dialog_label_appended_twice:
  "map (\<lambda>t. map col_label (columns t)) (snd (reconcile exScan exP13nRepeated))
     = [[''Overall Status'', ''Notes'', ''Notes'']]
   \<and> map (\<lambda>t. drop 1 (columns t)) (snd (reconcile exScan exP13nRepeated))
     = [[labelOnly ''Notes'', labelOnly ''Notes'']]
   \<and> mergeColumns [exColumn] [''Overall Status'', ''Notes'', ''Notes'']
     = [exColumn, labelOnly ''Notes'', labelOnly ''Notes'']"
  by code_simp

text \<open>
  C3 fails on the merge of dialog-sourced columns.  The filters and the scanned columns
  are free of duplicate keys (\<open>extractFilters_distinct\<close>, \<open>extractTables_distinct\<close>), but
  the merge compares labels only: for the scan \<open>exScan\<close>, whose column \<^verbatim>\<open>Status\<close> has the
  header text \<^verbatim>\<open>Overall Status\<close>, and a dialog that lists the label \<^verbatim>\<open>Status\<close>, the
  reconciled table has two columns with the property key \<^verbatim>\<open>Status\<close>.
\<close>

theorem reconcile_duplicate_column_key:
  "map (\<lambda>t. map col_propertyKey (columns t)) (snd (reconcile exScan exP13n))
     = [[''Status'', ''Status'']]
   \<and> \<not> distinct (map col_propertyKey (columns (hd (snd (reconcile exScan exP13n)))))"
proof -
  have run: "map (\<lambda>t. map col_propertyKey (columns t)) (snd (reconcile exScan exP13n))
     = [[''Status'', ''Status'']]"
    by code_simp
  then have "map col_propertyKey (columns (hd (snd (reconcile exScan exP13n))))
     = [''Status'', ''Status'']"
    by (cases "snd (reconcile exScan exP13n)") auto
  with run show ?thesis by simp
qed

section \<open>Properties of filter resolution\<close>

text \<open>
  What the normalization of the generated server removes: hyphens, underscores and the
  letter \<^verbatim>\<open>s\<close>, and no white space.
\<close>

lemma normalize_js_example: "normalize_js (Some ''Sales_Order-ID x'') = ''aleorderid x''"
  by code_simp

lemma matchesFilter_iff: "matchesFilter q f \<longleftrightarrow> containsQuery q f"
  by (auto simp: matchesFilter_def containsQuery_def Let_def)



text \<open>
  What the lookup computes: one pass over the filters in their order with one combined
  test, which amounts to containment of the normalized query in the normalized property
  key or in the normalized label.  The tests for equality that the source lists first
  decide nothing.
\<close>

lemma lookupFilter_single_pass:
  "lookupFilter fs q = Some f \<longleftrightarrow>
     (\<exists>i < length fs. fs ! i = f \<and> containsQuery q f
        \<and> (\<forall>j < i. \<not> containsQuery q (fs ! j)))"
proof -
  have m: "matchesFilter q = containsQuery q"
    by (rule ext) (simp add: matchesFilter_iff)
  show ?thesis
    unfolding lookupFilter_def m find_Some_iff by auto
qed

text \<open>
  C2 fails.  For the filters \<^verbatim>\<open>BookingDate\<close> (label \<^verbatim>\<open>Booked\<close>) and \<^verbatim>\<open>Booking\<close> (label
  \<^verbatim>\<open>Booking\<close>), in this order, the query \<^verbatim>\<open>Booking\<close> equals the property key of the second
  and is neither the key nor the label of the first; the lookup of the generated server
  returns the first, which it matches by containment only, and \<^verbatim>\<open>setFilter\<close> fills the
  input of \<^verbatim>\<open>BookingDate\<close>, where the command-line client fills the input of \<^verbatim>\<open>Booking\<close>.
  The normalization does not strip white space either: the query \<^verbatim>\<open>Sales Order\<close> is not
  found in a filter set whose only property key is \<^verbatim>\<open>SalesOrder\<close>.
\<close>

theorem setFilter_exact_key_resolved_to_earlier_filter:
  "propertyKey (exFilters ! 1) = ''Booking''
   \<and> propertyKey (exFilters ! 0) \<noteq> ''Booking''
   \<and> label (exFilters ! 0) \<noteq> Some ''Booking''
   \<and> lookupFilter exFilters ''Booking'' = Some (exFilters ! 0)
   \<and> lookupFilter exFilters ''Booking'' \<noteq> Some (exFilters ! 1)
   \<and> setFilter exFilters ''Booking'' ''2024''
       = ([Fill (hashSel ''ff::BookingDate-inner'') [],
           Fill (hashSel ''ff::BookingDate-inner'') ''2024'',
           DispatchEvents (Some (hashSel ''ff::BookingDate-inner''))
             [''input'', ''change'', ''blur'']],
          ''Filter Booked (BookingDate) set to 2024'')
   \<and> rc_setFilter exFilters ''Booking'' ''2024'' = Inr [Fill (hashSel ''ff::Booking-inner'') ''2024'']
   \<and> lookupFilter [mkDescriptor ''SalesOrder'' ''Order''] ''Sales Order'' = None"
  by code_simp

section \<open>Properties of \<^verbatim>\<open>setFilter\<close>\<close>




section \<open>Properties of the scenario classification\<close>

lemma executeTableAction_dialog_first:
  "hasFormDialog doc \<Longrightarrow> executeTableAction_scenario doc = ''popup_dialog''"
  by (simp add: executeTableAction_scenario_def)

lemma executeAction_messages_first:
  "executeAction_messages doc \<noteq> [] \<Longrightarrow> executeAction_scenario doc = ''error_messages''"
  by (simp add: executeAction_scenario_def)

text \<open>
  C1 holds for \<^verbatim>\<open>executeTableAction\<close> (\<open>executeTableAction_dialog_first\<close>) and fails for
  \<^verbatim>\<open>executeAction\<close>, which collects the messages before it looks for the dialog.  The page
  \<open>exDialogAndPopover\<close> holds an open dialog with a form and a footer and a message popover
  with one item: \<^verbatim>\<open>executeAction\<close> reports \<^verbatim>\<open>error_messages\<close> for it, \<^verbatim>\<open>executeTableAction\<close>
  reports \<^verbatim>\<open>popup_dialog\<close>.
\<close>

theorem executeAction_reports_messages_before_dialog:
  "hasFormDialog exDialogAndPopover
   \<and> found (doc_querySelector exDialogAndPopover sel_popover)
   \<and> executeAction_scenario exDialogAndPopover = ''error_messages''
   \<and> executeTableAction_scenario exDialogAndPopover = ''popup_dialog''"
  by code_simp

section \<open>Properties of row extraction\<close>

lemma trim_Nil_iff: "trim s = [] \<longleftrightarrow> (\<forall>c \<in> set s. isWhiteSpace c)"
proof
  assume "trim s = []"
  then have "dropWhile isWhiteSpace (rev (dropWhile isWhiteSpace s)) = []"
    by (simp add: trim_def)
  then have "\<forall>c \<in> set (dropWhile isWhiteSpace s). isWhiteSpace c"
    by (simp add: dropWhile_eq_Nil_conv)
  moreover have "\<forall>c \<in> set (takeWhile isWhiteSpace s). isWhiteSpace c"
    by (auto dest: set_takeWhileD)
  ultimately show "\<forall>c \<in> set s. isWhiteSpace c"
    by (metis Un_iff set_append takeWhile_dropWhile_id)
next
  assume "\<forall>c \<in> set s. isWhiteSpace c"
  then have a: "dropWhile isWhiteSpace s = []"
    using dropWhile_eq_Nil_conv by blast
  show "trim s = []"
    unfolding trim_def a by simp
qed

lemma set_join: "set (join sep xs) \<subseteq> set sep \<union> (\<Union>x \<in> set xs. set x)"
  by (induction sep xs rule: join.induct) auto

text \<open>Every character of the text of a descendant is a character of the text of the node.\<close>

lemma descendants_text:
  "d \<in> set (descendants ancs n) \<Longrightarrow> c \<in> set (textContent (snd d))
     \<Longrightarrow> c \<in> set (textContent n)"
  "d \<in> set (descendants_list ancs ks) \<Longrightarrow> c \<in> set (textContent (snd d))
     \<Longrightarrow> \<exists>k \<in> set ks. c \<in> set (textContent k)"
proof (induction ancs n and ancs ks rule: descendants_descendants_list.induct)
  case (1 ancs t)
  then show ?case by simp
next
  case (2 ancs tg as ks)
  then show ?case by auto
next
  case (3 ancs)
  then show ?case by simp
next
  case (4 ancs k ks)
  from "4.prems"(1) consider
      (self) "d = (ancs, k)"
    | (below) "d \<in> set (descendants ancs k)"
    | (rest) "d \<in> set (descendants_list ancs ks)"
    by (auto split: node.splits)
  then show ?case
  proof cases
    case self
    with "4.prems"(2) show ?thesis by auto
  next
    case below
    with "4.IH"(1) "4.prems"(2) show ?thesis by auto
  next
    case rest
    with "4.IH"(2) "4.prems"(2) show ?thesis by auto
  qed
qed

text \<open>
  The text of the spans never contributes: when the trimmed \<^verbatim>\<open>textContent\<close> of the cell is
  empty, the text of every span inside it is white space, too.
\<close>

lemma cellText_is_trimmed_textContent: "cellText td = trim (textContent (snd td))"
proof (cases "trim (textContent (snd td)) = []")
  case False
  then show ?thesis by (simp add: cellText_def Let_def)
next
  case True
  then have ws: "\<forall>c \<in> set (textContent (snd td)). isWhiteSpace c"
    by (simp add: trim_Nil_iff)
  let ?spans = "querySelectorAll td [[[Tag ''span'']]]"
  have sp: "isWhiteSpace c" if "s \<in> set ?spans" "c \<in> set (textContent (snd s))" for s c
  proof -
    from that(1) have "s \<in> set (descendants (fst td) (snd td))"
      by (simp add: querySelectorAll_def)
    from descendants_text(1) [OF this that(2)] ws show ?thesis by blast
  qed
  have "isWhiteSpace (CHR '' '')"
    by (simp add: isWhiteSpace_def)
  with sp have "\<forall>c \<in> set (join '' '' (map (\<lambda>s. textContent (snd s)) ?spans)). isWhiteSpace c"
    using set_join [of "'' ''" "map (\<lambda>s. textContent (snd s)) ?spans"] by auto
  then have "trim (join '' '' (map (\<lambda>s. textContent (snd s)) ?spans)) = []"
    by (simp add: trim_Nil_iff)
  with True show ?thesis by (simp add: cellText_def Let_def)
qed

text \<open>
  C6 fails.  The cell \<open>exCurrencyCell\<close> has no text of its own and two spans with the texts
  \<^verbatim>\<open>100\<close> and \<^verbatim>\<open>USD\<close>; its \<^verbatim>\<open>textContent\<close> is \<^verbatim>\<open>100USD\<close>, which is not empty, so the
  spans are never joined: the value of the cell is \<^verbatim>\<open>100USD\<close>, in each of the three rows
  of the page \<open>exTablePage\<close>.
\<close>

theorem getTableRows_composite_cell_not_joined:
  "cellText ([], exCurrencyCell) = ''100USD''
   \<and> getTableRows exTablePage =
       [\<lparr> tableListId = ''T-innerTable-listUl'',
          rows = [[(''Price'', ''100USD'')], [(''Price'', ''100USD'')], [(''Price'', ''100USD'')]],
          tr_rowCount = 3 \<rparr>]"
  by code_simp

section \<open>Properties of the control scanner\<close>

lemma scan_foldl:
  "foldl (\<lambda>acc e. case extractEntry b e of Returns (Some c) \<Rightarrow> acc @ [c] | _ \<Rightarrow> acc) acc es
     = acc @ concat (map (pushed b) es)"
  by (induction es arbitrary: acc) (auto simp: pushed_def split: outcome.splits option.splits)

lemma scan_controls: "sr_controls (extractUi5Controls b (Some es)) = concat (map (pushed b) es)"
  by (simp add: extractUi5Controls_def scan_foldl)

text \<open>
  An exception reaches the handler of the callback exactly when reading the type, the id
  or the render anchor throws, or when the entry is rendered and retained and reading its
  visibility, its enabled state, its placeholder, its value or its bindings throws.  A
  failure while reading the text, the tooltip, the labels, the table counts or the filter
  bar is caught closer to its origin and leaves that field undefined.
\<close>

lemma extractEntry_Throws_iff:
  "extractEntry b e = Throws \<longleftrightarrow>
     getName e = Throws \<or> getId e = Throws \<or> getDomRef e = Throws
     \<or> ((\<exists>ty d. getName e = Returns ty \<and> getDomRef e = Returns (Some d)
            \<and> (b \<or> \<not> isShellType ty \<or> isInteractive ty))
        \<and> (getVisible e = Throws \<or> getEnabled e = Throws \<or> getPlaceholder e = Throws
             \<or> getValue e = Throws \<or> getBindings e = Throws))"
  by (auto simp: extractEntry_def andThen_def Let_def split: outcome.splits option.splits)

lemma extractEntry_pushes_rendered:
  assumes "getName e = Returns ty" "getId e = Returns i" "getDomRef e = Returns (Some d)"
    and "b \<or> \<not> isShellType ty \<or> isInteractive ty"
    and "getVisible e \<noteq> Throws" "getEnabled e \<noteq> Throws" "getPlaceholder e \<noteq> Throws"
    and "getValue e \<noteq> Throws" "getBindings e \<noteq> Throws"
  shows "\<exists>c. extractEntry b e = Returns (Some c) \<and> c_id c = i \<and> c_type c = ty"
  using assms
  by (auto simp: extractEntry_def andThen_def Let_def split: outcome.splits option.splits)

text \<open>
  C9: for a registry that is present, the scan always answers with \<^verbatim>\<open>ready = true\<close>.  An
  entry whose extraction raises a failure that reaches the handler of the callback
  contributes nothing and changes nothing else: the controls are those of the registry
  without that entry.  An entry for which the callback pushes a control contributes that
  control, between the controls of the entries before it and those of the entries after
  it, whatever those entries do.
\<close>

theorem scan_skips_only_faulty_entries:
  "sr_ready (extractUi5Controls b (Some es))
   \<and> (extractEntry b e = Throws \<longrightarrow>
        sr_ready (extractUi5Controls b (Some (xs @ e # ys)))
        \<and> sr_controls (extractUi5Controls b (Some (xs @ e # ys)))
            = sr_controls (extractUi5Controls b (Some (xs @ ys))))
   \<and> (extractEntry b e = Returns (Some c) \<longrightarrow>
        sr_controls (extractUi5Controls b (Some (xs @ e # ys)))
          = sr_controls (extractUi5Controls b (Some xs))
            @ c # sr_controls (extractUi5Controls b (Some ys)))"
  by (simp add: scan_controls pushed_def) (simp add: extractUi5Controls_def)

theorem scan_skips_only_faulty_entries_witness:
  "extractEntry False exFaulty = Throws
   \<and> sr_ready (extractUi5Controls False (Some ([exButton] @ exFaulty # [exTable])))
   \<and> sr_controls (extractUi5Controls False (Some ([exButton] @ exFaulty # [exTable])))
       = sr_controls (extractUi5Controls False (Some ([exButton] @ [exTable])))
   \<and> map c_id (sr_controls (extractUi5Controls False (Some ([exButton] @ exFaulty # [exTable]))))
       = [Some ''v--btnGo'', Some ''v--tbl'']
   \<and> extractEntry False exTable
       = Returns (Some (hd (sr_controls (extractUi5Controls False (Some [exTable])))))
   \<and> sr_controls (extractUi5Controls False (Some ([exButton, exFaulty] @ exTable # [])))
       = sr_controls (extractUi5Controls False (Some [exButton, exFaulty]))
         @ hd (sr_controls (extractUi5Controls False (Some [exTable])))
           # sr_controls (extractUi5Controls False (Some []))"
proof -
  have faulty: "extractEntry False exFaulty = Throws"
    by code_simp
  have table: "extractEntry False exTable
       = Returns (Some (hd (sr_controls (extractUi5Controls False (Some [exTable])))))"
    by code_simp
  have ids: "map c_id (sr_controls (extractUi5Controls False (Some ([exButton] @ exFaulty # [exTable]))))
       = [Some ''v--btnGo'', Some ''v--tbl'']"
    by code_simp
  show ?thesis
    using scan_skips_only_faulty_entries
            [of False "[exButton]" exFaulty "[exButton]" "[exTable]"]
          scan_skips_only_faulty_entries
            [of False "[]" exTable "[exButton, exFaulty]" "[]"
                "hd (sr_controls (extractUi5Controls False (Some [exTable])))"]
          faulty table ids
    by simp
qed

end
